theory Spec2Isabelle
  imports Main
begin

section \<open>Task lifecycle, time tracking and authorization of the CRM server\<close>

text \<open>
  A shallow embedding of \<^verbatim>\<open>src/models/Task.js\<close> (schema, virtuals, pre-save hooks and
  instance methods) and of \<^verbatim>\<open>src/controllers/taskController.js\<close> (the request handlers).

  Conventions.
  \<^item> A \<^verbatim>\<open>Date\<close> is its number of milliseconds (\<open>int\<close>); \<^verbatim>\<open>Date | null\<close> is \<open>int option\<close>.
    A handler runs at one instant \<open>now\<close>: every \<^verbatim>\<open>new Date()\<close> of a request reads it.
  \<^item> An \<^verbatim>\<open>ObjectId\<close> is a \<open>nat\<close>; the tasks collection is a map from ids to stored tasks.
  \<^item> A Mongoose document in memory is the stored task together with the members that are
    never written to the collection (\<open>isNew\<close>, the modified mark of \<open>status\<close>, and the ad hoc
    properties \<open>modifiedBy\<close>, \<open>statusChangeReason\<close>).
  \<^item> Schema paths that no handler below reads (category, tags, attachments, comments,
    watchers, estimatedHours, customFields, updatedAt) are left out of the record.
  \<^item> Notification and e-mail calls sit in their own \<^verbatim>\<open>try/catch\<close> and change neither the
    response nor the tasks collection; they are not represented.
  \<^item> JavaScript numbers holding millisecond counts are integers (exact below \<open>2^53\<close>).
\<close>

subsection \<open>Constants of \<^verbatim>\<open>config/constants.js\<close>\<close>

text \<open>
  Modelled from the spec: \<^verbatim>\<open>config/constants.js\<close> is not among the sources. The members of
  \<^verbatim>\<open>TASK_STATUS\<close>, \<^verbatim>\<open>USER_ROLES\<close> and \<^verbatim>\<open>HTTP_STATUS\<close> that the code names are taken as
  the values of three enumerations; the numeric codes are those of the specification
  (200, 201, 400, 403, 404, 500).
\<close>

datatype task_status = PENDING | IN_PROGRESS | COMPLETED | CANCELLED | OVERDUE

datatype user_role = ADMIN | PROJECT_MANAGER | EMPLOYEE

datatype http_status = OK | CREATED | BAD_REQUEST | FORBIDDEN | NOT_FOUND | INTERNAL_SERVER_ERROR

fun status_code :: "http_status \<Rightarrow> nat" where
  "status_code OK = 200"
| "status_code CREATED = 201"
| "status_code BAD_REQUEST = 400"
| "status_code FORBIDDEN = 403"
| "status_code NOT_FOUND = 404"
| "status_code INTERNAL_SERVER_ERROR = 500"

subsection \<open>Strings\<close>

text \<open>
  The schema option \<^verbatim>\<open>trim: true\<close> applies \<^verbatim>\<open>String.prototype.trim\<close> when a value is set.
  Characters are code units below 256; the white space among them is TAB, LF, VT, FF, CR,
  SPACE and NBSP.
\<close>

definition isWhiteSpace :: "char \<Rightarrow> bool" where
  "isWhiteSpace c = (of_char c \<in> {9, 10, 11, 12, 13, 32, 160 :: nat})"

definition trim :: "string \<Rightarrow> string" where
  "trim s = rev (dropWhile isWhiteSpace (rev (dropWhile isWhiteSpace s)))"

subsection \<open>The task schema\<close>

text \<open>
  Field names are those of the schema, but for three that would clash: \<open>sessionNotes\<close> is
  the \<open>notes\<close> of a session, \<open>entry_status\<close> the \<open>status\<close> of a history entry, and
  \<open>userActive\<close> (below) the \<open>isActive\<close> of a user.
\<close>

record session =
  startTime :: "int option"
  endTime :: "int option"
  duration :: int
  sessionNotes :: string

record time_tracking =
  totalTimeSpent :: int
  sessions :: "session list"
  isActive :: bool
  currentSessionStart :: "int option"

record history_entry =
  entry_status :: task_status
  changedBy :: nat
  changedAt :: int
  reason :: string

record task =
  title :: string
  description :: string
  assignedTo :: nat
  assignedBy :: nat
  status :: task_status
  dueDate :: int
  startDate :: "int option"
  completedDate :: "int option"
  timeTracking :: time_tracking
  statusHistory :: "history_entry list"
  createdAt :: int

text \<open>
  The document in memory: \<open>docId\<close> is its \<^verbatim>\<open>_id\<close>; \<open>statusModified\<close> is
  \<^verbatim>\<open>isModified('status')\<close>; \<open>modifiedBy\<close> and \<open>statusChangeReason\<close> are plain properties
  that the hooks read (\<^verbatim>\<open>undefined\<close> is \<open>None\<close>).
\<close>

record doc = task +
  docId :: nat
  isNew :: bool
  statusModified :: bool
  modifiedBy :: "nat option"
  statusChangeReason :: "string option"

type_synonym store = "nat \<rightharpoonup> task"

text \<open>\<^verbatim>\<open>Task.findById\<close> hydrates a stored task; writing a document keeps its schema paths.\<close>

definition hydrate :: "nat \<Rightarrow> task \<Rightarrow> doc" where
  "hydrate i t = task.extend t (doc.fields i False False None None)"

definition persisted :: "doc \<Rightarrow> task" where
  "persisted d = task.truncate d"

text \<open>
  Assigning \<^verbatim>\<open>this.status = v\<close>: Mongoose marks the path modified when the document is new
  or the value differs from the current one; a mark stays until the next successful save.
\<close>

definition setStatus :: "task_status \<Rightarrow> doc \<Rightarrow> doc" where
  "setStatus v d = d\<lparr>status := v, statusModified := (statusModified d \<or> isNew d \<or> status d \<noteq> v)\<rparr>"

subsection \<open>Virtuals\<close>

definition isOverdue :: "int \<Rightarrow> 'a task_scheme \<Rightarrow> bool" where
  "isOverdue now t =
     (if status t = COMPLETED \<or> status t = CANCELLED then False else dueDate t < now)"

subsection \<open>Errors\<close>

text \<open>
  \<open>AlreadyActive\<close> is \<^verbatim>\<open>Error('Time tracking is already active for this task')\<close>,
  \<open>NoActiveSession\<close> is \<^verbatim>\<open>Error('No active time tracking session for this task')\<close>,
  \<open>ValidationError\<close> is the error with which \<^verbatim>\<open>save()\<close> rejects a document that
  violates the schema, \<open>DuplicateKey\<close> the error of inserting under an \<^verbatim>\<open>_id\<close> in use.
\<close>

datatype error = AlreadyActive | NoActiveSession | ValidationError | DuplicateKey

subsection \<open>Saving a document\<close>

text \<open>
  The validators of the schema on the modelled paths: \<open>title\<close> and \<open>description\<close> are
  required (a required string is not empty) and bounded by \<^verbatim>\<open>maxlength\<close>; every session
  has its required \<open>startTime\<close>. The other required paths cannot be absent in the record.
\<close>

definition validateSync :: "'a task_scheme \<Rightarrow> bool" where
  "validateSync t =
     (title t \<noteq> [] \<and> length (title t) \<le> 200 \<and>
      description t \<noteq> [] \<and> length (description t) \<le> 2000 \<and>
      list_all (\<lambda>s. startTime s \<noteq> None) (sessions (timeTracking t)))"

text \<open>\<^verbatim>\<open>endTime - startTime\<close> on dates: \<^verbatim>\<open>null\<close> converts to 0.\<close>

definition toNumber :: "int option \<Rightarrow> int" where
  "toNumber v = (case v of None \<Rightarrow> 0 | Some n \<Rightarrow> n)"

text \<open>
  The statements of \<^verbatim>\<open>stopTimeTracking\<close> between its guard and its \<^verbatim>\<open>save()\<close>: the session
  is appended, the total updated and the tracker reset.
\<close>

definition stopTimeTracking_body :: "int \<Rightarrow> string \<Rightarrow> doc \<Rightarrow> doc" where
  "stopTimeTracking_body now n d =
     (let tt = timeTracking d;
          endT = now;
          startT = currentSessionStart tt;
          dur = endT - toNumber startT
      in d\<lparr>timeTracking := tt\<lparr>
             sessions := sessions tt @
               [\<lparr>startTime = startT, endTime = Some endT, duration = dur, sessionNotes = trim n\<rparr>],
             totalTimeSpent := totalTimeSpent tt + dur,
             isActive := False,
             currentSessionStart := None\<rparr>\<rparr>)"

text \<open>
  First \<^verbatim>\<open>pre('save')\<close> hook. Its call \<^verbatim>\<open>this.stopTimeTracking()\<close> is not awaited: the
  statements up to the inner \<^verbatim>\<open>save()\<close> run at once, and the inner \<^verbatim>\<open>save()\<close> is rejected
  because the document is already being saved.
\<close>

definition preSave_statusHistory :: "int \<Rightarrow> doc \<Rightarrow> doc" where
  "preSave_statusHistory now d =
     (if statusModified d \<and> \<not> isNew d then
        let d1 = d\<lparr>statusHistory := statusHistory d @
                   [\<lparr>entry_status = status d,
                     changedBy = (case modifiedBy d of Some m \<Rightarrow> m | None \<Rightarrow> assignedBy d),
                     changedAt = now,
                     reason = trim (case statusChangeReason d of
                                      None \<Rightarrow> ''Status updated''
                                    | Some r \<Rightarrow> if r = [] then ''Status updated'' else r)\<rparr>]\<rparr>;
            d2 = (if status d1 = COMPLETED then
                    let d' = d1\<lparr>completedDate := Some now\<rparr>
                    in if isActive (timeTracking d') then stopTimeTracking_body now [] d' else d'
                  else d1)
        in if status d2 = IN_PROGRESS \<and> startDate d2 = None
           then d2\<lparr>startDate := Some now\<rparr> else d2
      else d)"

text \<open>Second \<^verbatim>\<open>pre('save')\<close> hook (\<open>dueDate\<close> is required, hence always set).\<close>

definition preSave_overdue :: "int \<Rightarrow> doc \<Rightarrow> doc" where
  "preSave_overdue now d =
     (if dueDate d < now \<and> status d \<noteq> COMPLETED \<and> status d \<noteq> CANCELLED \<and> status d \<noteq> OVERDUE
      then setStatus OVERDUE d else d)"

text \<open>
  \<^verbatim>\<open>doc.save()\<close>: validation, then the two hooks in the order of their registration, then
  the write (an insert when the document is new). Afterwards the document is neither new
  nor modified.
\<close>

definition save :: "int \<Rightarrow> doc \<Rightarrow> store \<Rightarrow> (error + doc) \<times> store" where
  "save now d \<sigma> =
     (if \<not> validateSync d then (Inl ValidationError, \<sigma>)
      else if isNew d \<and> \<sigma> (docId d) \<noteq> None then (Inl DuplicateKey, \<sigma>)
      else let d' = (preSave_overdue now (preSave_statusHistory now d))
                      \<lparr>isNew := False, statusModified := False\<rparr>
           in (Inr d', \<sigma>(docId d \<mapsto> persisted d')))"

subsection \<open>Instance methods\<close>

definition startTimeTracking :: "int \<Rightarrow> doc \<Rightarrow> store \<Rightarrow> (error + doc) \<times> store" where
  "startTimeTracking now d \<sigma> =
     (if isActive (timeTracking d) then (Inl AlreadyActive, \<sigma>)
      else let d1 = d\<lparr>timeTracking := (timeTracking d)\<lparr>isActive := True,
                                                       currentSessionStart := Some now\<rparr>\<rparr>;
               d2 = (if status d1 = PENDING then setStatus IN_PROGRESS d1 else d1)
           in save now d2 \<sigma>)"

definition stopTimeTracking :: "int \<Rightarrow> string \<Rightarrow> doc \<Rightarrow> store \<Rightarrow> (error + doc) \<times> store" where
  "stopTimeTracking now n d \<sigma> =
     (if \<not> isActive (timeTracking d) then (Inl NoActiveSession, \<sigma>)
      else save now (stopTimeTracking_body now n d) \<sigma>)"

definition markAsCompleted :: "nat \<Rightarrow> int \<Rightarrow> doc \<Rightarrow> store \<Rightarrow> (error + doc) \<times> store" where
  "markAsCompleted userId now d \<sigma> =
     (let d1 = (setStatus COMPLETED d)\<lparr>completedDate := Some now, modifiedBy := Some userId\<rparr>
      in if isActive (timeTracking d1) then
           (case stopTimeTracking now ''Task completed'' d1 \<sigma> of
              (Inl e, \<sigma>') \<Rightarrow> (Inl e, \<sigma>')
            | (Inr d2, \<sigma>') \<Rightarrow> save now d2 \<sigma>')
         else save now d1 \<sigma>)"

subsection \<open>Principals and requests\<close>

text \<open>
  \<^verbatim>\<open>req.user\<close>, as the authentication layer supplies it, and the users collection that
  \<^verbatim>\<open>User.findById\<close> and \<^verbatim>\<open>populate\<close> read.
\<close>

record user =
  uid :: nat
  role :: user_role
  designation :: string
  userActive :: bool

type_synonym users = "nat \<rightharpoonup> user"

text \<open>A response: the HTTP status and, on success, the task under \<^verbatim>\<open>data.task\<close>.\<close>

type_synonym response = "http_status \<times> task option"

subsection \<open>Reading a task\<close>

text \<open>
  \<^verbatim>\<open>getTaskById\<close>. The assignee is populated before the permission check; when the
  referenced user no longer exists the populated value is \<^verbatim>\<open>null\<close> and reading its
  \<^verbatim>\<open>_id\<close> throws, which the handler answers with 500.
\<close>

definition getTaskById :: "users \<Rightarrow> user \<Rightarrow> store \<Rightarrow> nat \<Rightarrow> response" where
  "getTaskById us u \<sigma> i =
     (case \<sigma> i of
        None \<Rightarrow> (NOT_FOUND, None)
      | Some t \<Rightarrow>
          if role u = EMPLOYEE then
            (case us (assignedTo t) of
               None \<Rightarrow> (INTERNAL_SERVER_ERROR, None)
             | Some a \<Rightarrow> if assignedTo t \<noteq> uid u then (FORBIDDEN, None) else (OK, Some t))
          else (OK, Some t))"

subsection \<open>Creating a task\<close>

text \<open>
  The members of the sanitized request body that reach the record (\<^verbatim>\<open>sanitizeInput\<close> is
  not among the sources; the body is taken after it). \<open>None\<close> is a member that is missing;
  for \<open>b_dueDate\<close> also one that \<^verbatim>\<open>new Date\<close> cannot read. The member \<open>startDate\<close> is
  tested for truthiness before it is read, so its form is kept: a number of milliseconds
  (falsy when 0), or a non-empty string with the instant that \<^verbatim>\<open>new Date\<close> reads from it.
\<close>

datatype date_member = DateNumber int | DateString int

record create_body =
  b_title :: "string option"
  b_description :: "string option"
  b_assignedTo :: "nat option"
  b_dueDate :: "int option"
  b_startDate :: "date_member option"

text \<open>\<^verbatim>\<open>startDate ? new Date(startDate) : null\<close>.\<close>

definition startDateOf :: "date_member option \<Rightarrow> int option" where
  "startDateOf v =
     (case v of
        None \<Rightarrow> None
      | Some (DateNumber n) \<Rightarrow> if n = 0 then None else Some n
      | Some (DateString n) \<Rightarrow> Some n)"

text \<open>
  \<^verbatim>\<open>new Task(taskData)\<close> with the defaults of the schema; \<open>i\<close> is the fresh \<^verbatim>\<open>_id\<close> and
  \<open>createdAt\<close> the timestamp of the first save.
\<close>

definition newTask :: "int \<Rightarrow> nat \<Rightarrow> nat \<Rightarrow> string \<Rightarrow> string \<Rightarrow> nat \<Rightarrow> int \<Rightarrow> int option \<Rightarrow> doc" where
  "newTask now i creator ti de a du sd =
     \<lparr>title = trim ti, description = trim de, assignedTo = a, assignedBy = creator,
      status = PENDING, dueDate = du, startDate = sd, completedDate = None,
      timeTracking = \<lparr>totalTimeSpent = 0, sessions = [], isActive = False,
                      currentSessionStart = None\<rparr>,
      statusHistory = [], createdAt = now,
      docId = i, isNew = True, statusModified = False, modifiedBy = None,
      statusChangeReason = None\<rparr>"

definition createTask :: "users \<Rightarrow> int \<Rightarrow> nat \<Rightarrow> user \<Rightarrow> create_body \<Rightarrow> store \<Rightarrow> response \<times> store" where
  "createTask us now i u b \<sigma> =
     (case (case b_assignedTo b of None \<Rightarrow> None | Some a \<Rightarrow> us a) of
        None \<Rightarrow> ((BAD_REQUEST, None), \<sigma>)
      | Some assignedUser \<Rightarrow>
          if \<not> userActive assignedUser then ((BAD_REQUEST, None), \<sigma>)
          else
            (case (b_title b, b_description b, b_assignedTo b, b_dueDate b) of
               (Some ti, Some de, Some a, Some du) \<Rightarrow>
                 (case save now (newTask now i (uid u) ti de a du (startDateOf (b_startDate b))) \<sigma> of
                    (Inr d, \<sigma>') \<Rightarrow> ((CREATED, Some (persisted d)), \<sigma>')
                  | (Inl ValidationError, \<sigma>') \<Rightarrow> ((BAD_REQUEST, None), \<sigma>')
                  | (Inl e, \<sigma>') \<Rightarrow> ((INTERNAL_SERVER_ERROR, None), \<sigma>'))
             | _ \<Rightarrow> ((BAD_REQUEST, None), \<sigma>)))"

subsection \<open>Updating a task\<close>

text \<open>
  The sanitized body of an update, member by member, each value as the schema casts it.
  \<open>SetOther k\<close> is a member named \<open>k\<close> whose value reaches no path of the record (a path
  left out of the record, or a name the schema does not declare). Bodies that replace
  \<open>timeTracking\<close> or \<open>statusHistory\<close> wholesale are not represented.
\<close>

datatype field_update =
    SetTitle string
  | SetDescription string
  | SetAssignedTo nat
  | SetAssignedBy nat
  | SetStatus task_status
  | SetDueDate int
  | SetStartDate "int option"
  | SetCompletedDate "int option"
  | SetOther string

fun fieldName :: "field_update \<Rightarrow> string" where
  "fieldName (SetTitle _) = ''title''"
| "fieldName (SetDescription _) = ''description''"
| "fieldName (SetAssignedTo _) = ''assignedTo''"
| "fieldName (SetAssignedBy _) = ''assignedBy''"
| "fieldName (SetStatus _) = ''status''"
| "fieldName (SetDueDate _) = ''dueDate''"
| "fieldName (SetStartDate _) = ''startDate''"
| "fieldName (SetCompletedDate _) = ''completedDate''"
| "fieldName (SetOther k) = k"

text \<open>\<^verbatim>\<open>runValidators: true\<close>: the validators of the paths that the update sets.\<close>

fun fieldValid :: "field_update \<Rightarrow> bool" where
  "fieldValid (SetTitle s) = (trim s \<noteq> [] \<and> length (trim s) \<le> 200)"
| "fieldValid (SetDescription s) = (trim s \<noteq> [] \<and> length (trim s) \<le> 2000)"
| "fieldValid _ = True"

fun applyField :: "task \<Rightarrow> field_update \<Rightarrow> task" where
  "applyField t (SetTitle s) = t\<lparr>title := trim s\<rparr>"
| "applyField t (SetDescription s) = t\<lparr>description := trim s\<rparr>"
| "applyField t (SetAssignedTo a) = t\<lparr>assignedTo := a\<rparr>"
| "applyField t (SetAssignedBy a) = t\<lparr>assignedBy := a\<rparr>"
| "applyField t (SetStatus s) = t\<lparr>status := s\<rparr>"
| "applyField t (SetDueDate d) = t\<lparr>dueDate := d\<rparr>"
| "applyField t (SetStartDate d) = t\<lparr>startDate := d\<rparr>"
| "applyField t (SetCompletedDate d) = t\<lparr>completedDate := d\<rparr>"
| "applyField t (SetOther k) = t"

text \<open>
  \<^verbatim>\<open>Task.findByIdAndUpdate(id, {...}, {new: true, runValidators: true})\<close>: an update
  query. It sets the given paths in the stored task and returns the task as updated. It
  loads no document and calls no \<^verbatim>\<open>save()\<close>, so no \<^verbatim>\<open>pre('save')\<close> hook runs.
\<close>

definition findByIdAndUpdate :: "nat \<Rightarrow> field_update list \<Rightarrow> store \<Rightarrow> (error + task option) \<times> store" where
  "findByIdAndUpdate i body \<sigma> =
     (if \<not> list_all fieldValid body then (Inl ValidationError, \<sigma>)
      else case \<sigma> i of
             None \<Rightarrow> (Inr None, \<sigma>)
           | Some t \<Rightarrow> (let t' = foldl applyField t body in (Inr (Some t'), \<sigma>(i \<mapsto> t'))))"

definition allowedFields :: "string list" where
  "allowedFields = [''status'', ''comments'']"

definition unauthorizedFields :: "field_update list \<Rightarrow> string list" where
  "unauthorizedFields body = filter (\<lambda>field. field \<notin> set allowedFields) (map fieldName body)"

definition updateTask :: "user \<Rightarrow> field_update list \<Rightarrow> store \<Rightarrow> nat \<Rightarrow> response \<times> store" where
  "updateTask u body \<sigma> i =
     (case \<sigma> i of
        None \<Rightarrow> ((NOT_FOUND, None), \<sigma>)
      | Some t \<Rightarrow>
          if role u = EMPLOYEE \<and> assignedTo t \<noteq> uid u then ((FORBIDDEN, None), \<sigma>)
          else if role u = EMPLOYEE \<and> length (unauthorizedFields body) > 0
          then ((FORBIDDEN, None), \<sigma>)
          else
            (case findByIdAndUpdate i body \<sigma> of
               (Inr updatedTask, \<sigma>') \<Rightarrow> ((OK, updatedTask), \<sigma>')
             | (Inl ValidationError, \<sigma>') \<Rightarrow> ((BAD_REQUEST, None), \<sigma>')
             | (Inl e, \<sigma>') \<Rightarrow> ((INTERNAL_SERVER_ERROR, None), \<sigma>')))"

subsection \<open>Deleting a task\<close>

definition canDeleteTasks :: "user \<Rightarrow> bool" where
  "canDeleteTasks u =
     (role u = ADMIN \<or> role u = PROJECT_MANAGER \<or>
      (role u = EMPLOYEE \<and> designation u = ''project_manager''))"

definition deleteTask :: "user \<Rightarrow> store \<Rightarrow> nat \<Rightarrow> response \<times> store" where
  "deleteTask u \<sigma> i =
     (case \<sigma> i of
        None \<Rightarrow> ((NOT_FOUND, None), \<sigma>)
      | Some t \<Rightarrow>
          if \<not> canDeleteTasks u then ((FORBIDDEN, None), \<sigma>)
          else ((OK, None), \<sigma>(i := None)))"

subsection \<open>Start, stop, complete\<close>

text \<open>
  The \<^verbatim>\<open>catch\<close> blocks select the status from the message of the error: only
  \<open>AlreadyActive\<close> contains \<^verbatim>\<open>'already active'\<close>, only \<open>NoActiveSession\<close> contains
  \<^verbatim>\<open>'No active time tracking'\<close>.
\<close>

definition startTask :: "int \<Rightarrow> user \<Rightarrow> store \<Rightarrow> nat \<Rightarrow> response \<times> store" where
  "startTask now u \<sigma> i =
     (case \<sigma> i of
        None \<Rightarrow> ((NOT_FOUND, None), \<sigma>)
      | Some t \<Rightarrow>
          if assignedTo t \<noteq> uid u then ((FORBIDDEN, None), \<sigma>)
          else
            (case startTimeTracking now (hydrate i t) \<sigma> of
               (Inr d, \<sigma>') \<Rightarrow> ((OK, Some (persisted d)), \<sigma>')
             | (Inl AlreadyActive, \<sigma>') \<Rightarrow> ((BAD_REQUEST, None), \<sigma>')
             | (Inl e, \<sigma>') \<Rightarrow> ((INTERNAL_SERVER_ERROR, None), \<sigma>')))"

text \<open>\<open>n\<close> is \<^verbatim>\<open>req.body.notes\<close>; when it is undefined the default \<^verbatim>\<open>''\<close> of the method applies.\<close>

definition stopTask :: "int \<Rightarrow> user \<Rightarrow> string option \<Rightarrow> store \<Rightarrow> nat \<Rightarrow> response \<times> store" where
  "stopTask now u n \<sigma> i =
     (case \<sigma> i of
        None \<Rightarrow> ((NOT_FOUND, None), \<sigma>)
      | Some t \<Rightarrow>
          if assignedTo t \<noteq> uid u then ((FORBIDDEN, None), \<sigma>)
          else
            (case stopTimeTracking now (case n of None \<Rightarrow> [] | Some s \<Rightarrow> s) (hydrate i t) \<sigma> of
               (Inr d, \<sigma>') \<Rightarrow> ((OK, Some (persisted d)), \<sigma>')
             | (Inl NoActiveSession, \<sigma>') \<Rightarrow> ((BAD_REQUEST, None), \<sigma>')
             | (Inl e, \<sigma>') \<Rightarrow> ((INTERNAL_SERVER_ERROR, None), \<sigma>')))"

definition completeTask :: "int \<Rightarrow> user \<Rightarrow> store \<Rightarrow> nat \<Rightarrow> response \<times> store" where
  "completeTask now u \<sigma> i =
     (case \<sigma> i of
        None \<Rightarrow> ((NOT_FOUND, None), \<sigma>)
      | Some t \<Rightarrow>
          if assignedTo t \<noteq> uid u then ((FORBIDDEN, None), \<sigma>)
          else
            (case markAsCompleted (uid u) now (hydrate i t) \<sigma> of
               (Inr d, \<sigma>') \<Rightarrow> ((OK, Some (persisted d)), \<sigma>')
             | (Inl e, \<sigma>') \<Rightarrow> ((INTERNAL_SERVER_ERROR, None), \<sigma>')))"

subsection \<open>Listing tasks\<close>

text \<open>
  The criteria of \<^verbatim>\<open>req.query\<close> that reach the filter, each value as the schema casts it.
  A criterion is present when its string is truthy: \<open>None\<close> is a missing member, and the
  empty string of \<open>q_priority\<close> and \<open>q_search\<close> counts as missing too.
\<close>

record task_query =
  q_status :: "task_status option"
  q_priority :: "string option"
  q_assignedTo :: "nat option"
  q_assignedBy :: "nat option"
  q_search :: "string option"
  q_startDate :: "int option"
  q_endDate :: "int option"

definition truthy :: "string option \<Rightarrow> bool" where
  "truthy v = (case v of None \<Rightarrow> False | Some s \<Rightarrow> s \<noteq> [])"

text \<open>
  The filter object. Its members are the keys that the handler assigns; assigning a key
  again replaces what it held. \<open>f_or\<close> is \<^verbatim>\<open>$or\<close>, a list of alternatives.
\<close>

datatype condition =
    AssignedToIs nat
  | AssignedByIs nat
  | TitleRegExp string
  | DescriptionRegExp string

record task_filter =
  f_status :: "task_status option"
  f_priority :: "string option"
  f_assignedTo :: "nat option"
  f_assignedBy :: "nat option"
  f_createdAt_gte :: "int option"
  f_createdAt_lte :: "int option"
  f_or :: "condition list option"

definition getAllTasks_filter :: "task_query \<Rightarrow> user \<Rightarrow> task_filter" where
  "getAllTasks_filter q u =
     (let f0 = \<lparr>f_status = q_status q,
                 f_priority = (if truthy (q_priority q) then q_priority q else None),
                 f_assignedTo = q_assignedTo q,
                 f_assignedBy = q_assignedBy q,
                 f_createdAt_gte = q_startDate q,
                 f_createdAt_lte = q_endDate q,
                 f_or = None\<rparr>;
          f1 = (case q_search q of
                  None \<Rightarrow> f0
                | Some search \<Rightarrow>
                    if search \<noteq> []
                    then f0\<lparr>f_or := Some [TitleRegExp search, DescriptionRegExp search]\<rparr>
                    else f0)
      in if role u = EMPLOYEE then
           (if designation u = ''project_manager''
            then f1\<lparr>f_or := Some [AssignedToIs (uid u), AssignedByIs (uid u)]\<rparr>
            else f1\<lparr>f_assignedTo := Some (uid u)\<rparr>)
         else f1)"

text \<open>
  Which stored tasks \<^verbatim>\<open>Task.find(filter)\<close> selects. The members of the filter hold
  together; \<^verbatim>\<open>$or\<close> holds when one of its alternatives does. Two tests are those of the
  database and are parameters: \<open>rx p s\<close> is \<^verbatim>\<open>new RegExp(p, 'i')\<close> tested on \<open>s\<close>, and
  \<open>pr p t\<close> is the test of a \<open>priority\<close> criterion, a path the schema does not declare.
\<close>

fun holds :: "(string \<Rightarrow> string \<Rightarrow> bool) \<Rightarrow> task \<Rightarrow> condition \<Rightarrow> bool" where
  "holds rx t (AssignedToIs a) = (assignedTo t = a)"
| "holds rx t (AssignedByIs a) = (assignedBy t = a)"
| "holds rx t (TitleRegExp p) = rx p (title t)"
| "holds rx t (DescriptionRegExp p) = rx p (description t)"

definition matchesFilter ::
  "(string \<Rightarrow> string \<Rightarrow> bool) \<Rightarrow> (string \<Rightarrow> task \<Rightarrow> bool) \<Rightarrow> task_filter \<Rightarrow> task \<Rightarrow> bool" where
  "matchesFilter rx pr f t =
     ((case f_status f of None \<Rightarrow> True | Some s \<Rightarrow> status t = s) \<and>
      (case f_priority f of None \<Rightarrow> True | Some p \<Rightarrow> pr p t) \<and>
      (case f_assignedTo f of None \<Rightarrow> True | Some a \<Rightarrow> assignedTo t = a) \<and>
      (case f_assignedBy f of None \<Rightarrow> True | Some a \<Rightarrow> assignedBy t = a) \<and>
      (case f_createdAt_gte f of None \<Rightarrow> True | Some d \<Rightarrow> d \<le> createdAt t) \<and>
      (case f_createdAt_lte f of None \<Rightarrow> True | Some d \<Rightarrow> createdAt t \<le> d) \<and>
      (case f_or f of None \<Rightarrow> True | Some cs \<Rightarrow> list_ex (holds rx t) cs))"

text \<open>
  The tasks of a listing: those of the collection that the filter of the request selects
  (the handler sorts them and cuts a page out of them).
\<close>

definition getAllTasks_selects ::
  "(string \<Rightarrow> string \<Rightarrow> bool) \<Rightarrow> (string \<Rightarrow> task \<Rightarrow> bool) \<Rightarrow> task_query \<Rightarrow> user \<Rightarrow> store \<Rightarrow> nat \<Rightarrow> bool" where
  "getAllTasks_selects rx pr q u \<sigma> i =
     (case \<sigma> i of None \<Rightarrow> False | Some t \<Rightarrow> matchesFilter rx pr (getAllTasks_filter q u) t)"

text \<open>
  The search criterion in the words of the specification: the search string occurs in the
  title or in the description, letter case ignored.
\<close>

definition toLowerCase :: "string \<Rightarrow> string" where
  "toLowerCase s =
     map (\<lambda>c. if 65 \<le> (of_char c :: nat) \<and> (of_char c :: nat) \<le> 90
              then char_of ((of_char c :: nat) + 32) else c) s"

fun startsWith :: "string \<Rightarrow> string \<Rightarrow> bool" where
  "startsWith s [] = True"
| "startsWith [] (p # ps) = False"
| "startsWith (c # cs) (p # ps) = (c = p \<and> startsWith cs ps)"

fun containsString :: "string \<Rightarrow> string \<Rightarrow> bool" where
  "containsString [] p = (p = [])"
| "containsString (c # cs) p = (startsWith (c # cs) p \<or> containsString cs p)"

definition search_spec :: "string \<Rightarrow> task \<Rightarrow> bool" where
  "search_spec search t =
     (containsString (toLowerCase (title t)) (toLowerCase search) \<or>
      containsString (toLowerCase (description t)) (toLowerCase search))"

subsection \<open>Sequences of tracking requests\<close>

datatype tracking_request =
    Start int user nat
  | Stop int user "string option" nat

fun perform :: "store \<Rightarrow> tracking_request \<Rightarrow> store" where
  "perform \<sigma> (Start now u i) = snd (startTask now u \<sigma> i)"
| "perform \<sigma> (Stop now u n i) = snd (stopTask now u n \<sigma> i)"

definition performAll :: "store \<Rightarrow> tracking_request list \<Rightarrow> store" where
  "performAll \<sigma> rs = foldl perform \<sigma> rs"

text \<open>Invariant 2 of the data model on one task.\<close>

definition totalIsSum :: "'a task_scheme \<Rightarrow> bool" where
  "totalIsSum t =
     (totalTimeSpent (timeTracking t) = sum_list (map duration (sessions (timeTracking t))))"

subsection \<open>Example data\<close>

text \<open>
  Three principals and two tasks, on which the theorems below are instantiated: \<open>alice\<close> is
  a plain employee, \<open>bob\<close> an employee with the project-manager designation, \<open>carol\<close> an
  administrator. \<open>report_task\<close> was created by \<open>bob\<close> for \<open>alice\<close>; \<open>audit_task\<close> was
  created by \<open>carol\<close> for \<open>alice\<close>.
\<close>

definition alice :: user where
  "alice = \<lparr>uid = 1, role = EMPLOYEE, designation = ''developer'', userActive = True\<rparr>"

definition bob :: user where
  "bob = \<lparr>uid = 2, role = EMPLOYEE, designation = ''project_manager'', userActive = True\<rparr>"

definition carol :: user where
  "carol = \<lparr>uid = 3, role = ADMIN, designation = ''director'', userActive = True\<rparr>"

definition directory :: users where
  "directory = [1 \<mapsto> alice, 2 \<mapsto> bob, 3 \<mapsto> carol]"

definition report_task :: task where
  "report_task =
     \<lparr>title = ''Report'', description = ''Quarterly figures'', assignedTo = 1, assignedBy = 2,
      status = PENDING, dueDate = 5000000, startDate = None, completedDate = None,
      timeTracking = \<lparr>totalTimeSpent = 0, sessions = [], isActive = False,
                      currentSessionStart = None\<rparr>,
      statusHistory = [], createdAt = 0\<rparr>"

definition audit_task :: task where
  "audit_task = report_task\<lparr>title := ''Audit'', assignedBy := 3\<rparr>"

text \<open>\<open>report_task\<close> after \<open>alice\<close> has started it at instant 100.\<close>

definition tracked_task :: task where
  "tracked_task =
     report_task\<lparr>status := IN_PROGRESS, startDate := Some 100,
       timeTracking := \<lparr>totalTimeSpent = 0, sessions = [], isActive = True,
                        currentSessionStart = Some 100\<rparr>,
       statusHistory := [\<lparr>entry_status = IN_PROGRESS, changedBy = 2, changedAt = 100,
                          reason = ''Status updated''\<rparr>]\<rparr>"

text \<open>
  A listing request that searches for \<open>invoice\<close>, and the body of a request that creates
  a task whose due date (instant 50) has passed when the request arrives.
\<close>

definition invoice_query :: task_query where
  "invoice_query =
     \<lparr>q_status = None, q_priority = None, q_assignedTo = None, q_assignedBy = None,
      q_search = Some ''invoice'', q_startDate = None, q_endDate = None\<rparr>"

definition late_body :: create_body where
  "late_body =
     \<lparr>b_title = Some ''Invoice'', b_description = Some ''Send the invoice'',
      b_assignedTo = Some 1, b_dueDate = Some 50, b_startDate = None\<rparr>"

section \<open>Properties\<close>

subsection \<open>Auxiliary facts\<close>

lemma trim_literals:
  "trim ''Status updated'' = ''Status updated''"
  "trim ''Task completed'' = ''Task completed''"
  "trim ''lunch'' = ''lunch''"
  "trim ''Invoice'' = ''Invoice''"
  "trim ''Send the invoice'' = ''Send the invoice''"
  "trim [] = []"
  by (simp_all add: trim_def isWhiteSpace_def)

lemma hydrate_simps:
  "title (hydrate i t) = title t" "description (hydrate i t) = description t"
  "assignedTo (hydrate i t) = assignedTo t" "assignedBy (hydrate i t) = assignedBy t"
  "status (hydrate i t) = status t" "dueDate (hydrate i t) = dueDate t"
  "startDate (hydrate i t) = startDate t" "completedDate (hydrate i t) = completedDate t"
  "timeTracking (hydrate i t) = timeTracking t" "statusHistory (hydrate i t) = statusHistory t"
  "createdAt (hydrate i t) = createdAt t"
  "docId (hydrate i t) = i" "isNew (hydrate i t) = False" "statusModified (hydrate i t) = False"
  "modifiedBy (hydrate i t) = None" "statusChangeReason (hydrate i t) = None"
  by (simp_all add: hydrate_def task.defs doc.defs)

lemma persisted_simps:
  "title (persisted d) = title d" "description (persisted d) = description d"
  "assignedTo (persisted d) = assignedTo d" "assignedBy (persisted d) = assignedBy d"
  "status (persisted d) = status d" "dueDate (persisted d) = dueDate d"
  "startDate (persisted d) = startDate d" "completedDate (persisted d) = completedDate d"
  "timeTracking (persisted d) = timeTracking d" "statusHistory (persisted d) = statusHistory d"
  "createdAt (persisted d) = createdAt d"
  by (simp_all add: persisted_def task.defs doc.defs)

lemma persisted_hydrate: "persisted (hydrate i t) = t"
  by (simp add: persisted_def hydrate_def task.defs doc.defs)

lemmas example_defs =
  alice_def bob_def carol_def directory_def report_task_def audit_task_def tracked_task_def
  invoice_query_def late_body_def

lemmas model_defs =
  startTask_def stopTask_def completeTask_def startTimeTracking_def stopTimeTracking_def
  markAsCompleted_def stopTimeTracking_body_def save_def validateSync_def
  preSave_overdue_def preSave_statusHistory_def setStatus_def toNumber_def
  hydrate_simps persisted_simps trim_literals Let_def

lemma example_tasks_valid:
  "validateSync report_task" "validateSync audit_task" "validateSync tracked_task"
  "totalIsSum report_task" "totalIsSum tracked_task"
  by (simp_all add: validateSync_def totalIsSum_def example_defs)

subsection \<open>Starting a task whose tracker is active\<close>

text \<open>
  Claim C4. For every task with \<open>timeTracking.isActive\<close> true, \<open>startTask\<close> by the assignee
  fails: \<open>startTimeTracking\<close> raises \<open>AlreadyActive\<close>, the handler answers
  \<open>BAD_REQUEST\<close> (400), and the tasks collection is the one before the call, so the
  sessions, \<open>totalTimeSpent\<close>, \<open>isActive\<close> and \<open>currentSessionStart\<close> of the task are
  unchanged.
\<close>

theorem startTask_active_conflict:
  assumes "\<sigma> i = Some t" and "assignedTo t = uid u" and "isActive (timeTracking t)"
  shows "fst (startTimeTracking now (hydrate i t) \<sigma>) = Inl AlreadyActive \<and>
         startTask now u \<sigma> i = ((BAD_REQUEST, None), \<sigma>) \<and>
         status_code (fst (fst (startTask now u \<sigma> i))) = 400 \<and>
         snd (startTask now u \<sigma> i) i = Some t"
  using assms by (simp add: startTask_def startTimeTracking_def hydrate_simps)

theorem startTask_active_conflict_witness:
  "[7 \<mapsto> tracked_task] 7 = Some tracked_task \<and> assignedTo tracked_task = uid alice \<and>
   isActive (timeTracking tracked_task) \<and>
   startTask 200 alice [7 \<mapsto> tracked_task] 7 = ((BAD_REQUEST, None), [7 \<mapsto> tracked_task])"
  using startTask_active_conflict
    [where \<sigma>="[7 \<mapsto> tracked_task]" and i=7 and t=tracked_task and u=alice and now=200]
  by (simp add: example_defs)

subsection \<open>The total is the sum of the sessions\<close>

lemma totalIsSum_body: "totalIsSum d \<Longrightarrow> totalIsSum (stopTimeTracking_body now n d)"
  by (simp add: totalIsSum_def stopTimeTracking_body_def Let_def)

lemma totalIsSum_hooks:
  "totalIsSum d \<Longrightarrow> totalIsSum (preSave_overdue now (preSave_statusHistory now d))"
  by (simp add: totalIsSum_def preSave_overdue_def preSave_statusHistory_def setStatus_def
      stopTimeTracking_body_def Let_def)

lemma totalIsSum_hydrate: "totalIsSum (hydrate j t) = totalIsSum t"
  by (simp add: totalIsSum_def hydrate_simps)

lemma totalIsSum_newTask: "totalIsSum (newTask now i creator ti de a du sd)"
  by (simp add: totalIsSum_def newTask_def)

text \<open>A save either fails and leaves the collection alone, or writes the document.\<close>

lemma save_cases:
  "save now d \<sigma> = (Inl ValidationError, \<sigma>) \<or> save now d \<sigma> = (Inl DuplicateKey, \<sigma>) \<or>
   (\<exists>d'. save now d \<sigma> = (Inr d', \<sigma>(docId d \<mapsto> persisted d')) \<and>
      timeTracking d' = timeTracking (preSave_overdue now (preSave_statusHistory now d)))"
  by (simp add: save_def Let_def)

lemma save_totalIsSum:
  assumes "\<sigma> i = Some t" and "totalIsSum t" and "docId d = i \<longrightarrow> totalIsSum d"
  shows "\<exists>t'. snd (save now d \<sigma>) i = Some t' \<and> totalIsSum t'"
proof -
  from save_cases [of now d \<sigma>] show ?thesis
  proof (elim disjE exE conjE)
    fix d'
    assume written: "save now d \<sigma> = (Inr d', \<sigma>(docId d \<mapsto> persisted d'))"
      and tt: "timeTracking d' = timeTracking (preSave_overdue now (preSave_statusHistory now d))"
    show ?thesis
    proof (cases "docId d = i")
      case True
      with assms(3) have "totalIsSum d" by simp
      from totalIsSum_hooks [OF this, of now] tt have "totalIsSum (persisted d')"
        by (simp add: totalIsSum_def persisted_simps)
      with written True show ?thesis by simp
    next
      case False
      with written assms(1,2) show ?thesis by simp
    qed
  qed (use assms in auto)
qed

lemma startTimeTracking_totalIsSum:
  assumes "\<sigma> i = Some t" and "totalIsSum t" and "docId d = i \<longrightarrow> totalIsSum d"
  shows "\<exists>t'. snd (startTimeTracking now d \<sigma>) i = Some t' \<and> totalIsSum t'"
proof (cases "isActive (timeTracking d)")
  case True
  with assms show ?thesis by (simp add: startTimeTracking_def)
next
  case False
  define d2 where
    "d2 = (let d1 = d\<lparr>timeTracking := (timeTracking d)\<lparr>isActive := True,
                                                     currentSessionStart := Some now\<rparr>\<rparr>
           in (if status d1 = PENDING then setStatus IN_PROGRESS d1 else d1))"
  have st: "startTimeTracking now d \<sigma> = save now d2 \<sigma>"
    using False by (simp add: startTimeTracking_def d2_def Let_def)
  have "docId d2 = docId d" "totalIsSum d2 = totalIsSum d"
    by (simp_all add: d2_def totalIsSum_def setStatus_def Let_def)
  with assms(3) have "docId d2 = i \<longrightarrow> totalIsSum d2" by simp
  with save_totalIsSum [where \<sigma>=\<sigma> and i=i and t=t and d=d2 and now=now] assms(1,2) st
  show ?thesis by simp
qed

lemma stopTimeTracking_totalIsSum:
  assumes "\<sigma> i = Some t" and "totalIsSum t" and "docId d = i \<longrightarrow> totalIsSum d"
  shows "\<exists>t'. snd (stopTimeTracking now n d \<sigma>) i = Some t' \<and> totalIsSum t'"
proof (cases "isActive (timeTracking d)")
  case False
  with assms show ?thesis by (simp add: stopTimeTracking_def)
next
  case True
  have "docId (stopTimeTracking_body now n d) = docId d"
    by (simp add: stopTimeTracking_body_def Let_def)
  with assms(3) totalIsSum_body
  have "docId (stopTimeTracking_body now n d) = i \<longrightarrow> totalIsSum (stopTimeTracking_body now n d)"
    by simp
  with save_totalIsSum
    [where \<sigma>=\<sigma> and i=i and t=t and d="stopTimeTracking_body now n d" and now=now]
    assms(1,2) True
  show ?thesis by (simp add: stopTimeTracking_def)
qed

lemma startTask_totalIsSum:
  assumes "\<sigma> i = Some t" and "totalIsSum t"
  shows "\<exists>t'. snd (startTask now u \<sigma> j) i = Some t' \<and> totalIsSum t'"
proof (cases "\<sigma> j")
  case None
  then show ?thesis using assms by (simp add: startTask_def)
next
  case (Some tj)
  have inv: "docId (hydrate j tj) = i \<longrightarrow> totalIsSum (hydrate j tj)"
    using assms Some by (auto simp: hydrate_simps totalIsSum_hydrate)
  have "snd (startTask now u \<sigma> j) = \<sigma> \<or>
        snd (startTask now u \<sigma> j) = snd (startTimeTracking now (hydrate j tj) \<sigma>)"
    using Some by (auto simp: startTask_def split: prod.splits sum.splits error.splits)
  with startTimeTracking_totalIsSum
    [where \<sigma>=\<sigma> and i=i and t=t and d="hydrate j tj" and now=now] assms inv
  show ?thesis by auto
qed

lemma stopTask_totalIsSum:
  assumes "\<sigma> i = Some t" and "totalIsSum t"
  shows "\<exists>t'. snd (stopTask now u n \<sigma> j) i = Some t' \<and> totalIsSum t'"
proof (cases "\<sigma> j")
  case None
  then show ?thesis using assms by (simp add: stopTask_def)
next
  case (Some tj)
  have inv: "docId (hydrate j tj) = i \<longrightarrow> totalIsSum (hydrate j tj)"
    using assms Some by (auto simp: hydrate_simps totalIsSum_hydrate)
  have "snd (stopTask now u n \<sigma> j) = \<sigma> \<or>
        snd (stopTask now u n \<sigma> j) =
          snd (stopTimeTracking now (case n of None \<Rightarrow> [] | Some s \<Rightarrow> s) (hydrate j tj) \<sigma>)"
    using Some by (auto simp: stopTask_def split: prod.splits sum.splits error.splits)
  with stopTimeTracking_totalIsSum
    [where \<sigma>=\<sigma> and i=i and t=t and d="hydrate j tj" and now=now] assms inv
  show ?thesis by auto
qed

lemma perform_totalIsSum:
  assumes "\<sigma> i = Some t" and "totalIsSum t"
  shows "\<exists>t'. perform \<sigma> r i = Some t' \<and> totalIsSum t'"
  using assms by (cases r) (simp_all add: startTask_totalIsSum stopTask_totalIsSum)

lemma performAll_totalIsSum:
  assumes "\<sigma> i = Some t" and "totalIsSum t"
  shows "\<exists>t'. performAll \<sigma> rs i = Some t' \<and> totalIsSum t'"
  using assms
proof (induction rs arbitrary: \<sigma> t)
  case Nil
  then show ?case by (simp add: performAll_def)
next
  case (Cons r rs)
  from perform_totalIsSum [where \<sigma>=\<sigma> and i=i and t=t and r=r] Cons.prems
  obtain t1 where "perform \<sigma> r i = Some t1" "totalIsSum t1" by blast
  with Cons.IH [where \<sigma>="perform \<sigma> r" and t=t1] show ?case by (simp add: performAll_def)
qed

lemma stopTask_session:
  assumes "\<sigma> i = Some t" and "assignedTo t = uid u" and "validateSync t"
    and "isActive (timeTracking t)" and "currentSessionStart (timeTracking t) = Some s"
  shows "\<exists>t'. stopTask now u n \<sigma> i = ((OK, Some t'), \<sigma>(i \<mapsto> t')) \<and>
           timeTracking t' =
             \<lparr>totalTimeSpent = totalTimeSpent (timeTracking t) + (now - s),
              sessions = sessions (timeTracking t) @
                [\<lparr>startTime = Some s, endTime = Some now, duration = now - s,
                  sessionNotes = trim (case n of None \<Rightarrow> [] | Some x \<Rightarrow> x)\<rparr>],
              isActive = False, currentSessionStart = None\<rparr>"
  using assms
  by (simp add: stopTask_def stopTimeTracking_def save_def validateSync_def hydrate_simps
      persisted_simps stopTimeTracking_body_def preSave_overdue_def preSave_statusHistory_def
      setStatus_def toNumber_def Let_def)

text \<open>
  Claim C5. A task is created with \<open>totalTimeSpent\<close> equal to the sum of the durations of
  its (no) sessions, and every sequence of start and stop requests, by any principals on
  any tasks at any instants, keeps the equation on every stored task. Each stop of an
  active tracker by the assignee appends exactly one session
  \<open>{startTime: currentSessionStart, endTime: now, duration: now - currentSessionStart, notes}\<close>
  (the note as the schema trims it), adds that duration to \<open>totalTimeSpent\<close>, and clears
  \<open>isActive\<close> and \<open>currentSessionStart\<close>.
\<close>

theorem totalTimeSpent_sums_sessions:
  assumes "\<sigma> i = Some t" and "totalIsSum t"
  shows "totalIsSum (newTask now0 i0 creator ti de a du sd) \<and>
         (\<exists>t'. performAll \<sigma> rs i = Some t' \<and> totalIsSum t') \<and>
         (assignedTo t = uid u \<and> validateSync t \<and> isActive (timeTracking t) \<and>
          currentSessionStart (timeTracking t) = Some s \<longrightarrow>
            (\<exists>t'. stopTask now u n \<sigma> i = ((OK, Some t'), \<sigma>(i \<mapsto> t')) \<and>
               timeTracking t' =
                 \<lparr>totalTimeSpent = totalTimeSpent (timeTracking t) + (now - s),
                  sessions = sessions (timeTracking t) @
                    [\<lparr>startTime = Some s, endTime = Some now, duration = now - s,
                      sessionNotes = trim (case n of None \<Rightarrow> [] | Some x \<Rightarrow> x)\<rparr>],
                  isActive = False, currentSessionStart = None\<rparr>))"
proof (intro conjI impI)
  show "totalIsSum (newTask now0 i0 creator ti de a du sd)"
    by (rule totalIsSum_newTask)
  show "\<exists>t'. performAll \<sigma> rs i = Some t' \<and> totalIsSum t'"
    using assms by (rule performAll_totalIsSum)
next
  assume "assignedTo t = uid u \<and> validateSync t \<and> isActive (timeTracking t) \<and>
          currentSessionStart (timeTracking t) = Some s"
  with assms(1) stopTask_session [where \<sigma>=\<sigma> and i=i and t=t and u=u and s=s and now=now and n=n]
  show "\<exists>t'. stopTask now u n \<sigma> i = ((OK, Some t'), \<sigma>(i \<mapsto> t')) \<and>
               timeTracking t' =
                 \<lparr>totalTimeSpent = totalTimeSpent (timeTracking t) + (now - s),
                  sessions = sessions (timeTracking t) @
                    [\<lparr>startTime = Some s, endTime = Some now, duration = now - s,
                      sessionNotes = trim (case n of None \<Rightarrow> [] | Some x \<Rightarrow> x)\<rparr>],
                  isActive = False, currentSessionStart = None\<rparr>"
    by simp
qed

theorem totalTimeSpent_sums_sessions_witness:
  "(\<exists>t'. performAll [7 \<mapsto> report_task]
            [Start 100 alice 7, Stop 1800100 alice (Some ''lunch'') 7] 7 = Some t' \<and>
         totalTimeSpent (timeTracking t') = 1800000 \<and> totalIsSum t') \<and>
   (\<exists>t'. stopTask 1800100 alice (Some ''lunch'') [7 \<mapsto> tracked_task] 7 =
           ((OK, Some t'), [7 \<mapsto> t']) \<and>
         timeTracking t' =
           \<lparr>totalTimeSpent = 1800000,
            sessions = [\<lparr>startTime = Some 100, endTime = Some 1800100, duration = 1800000,
                         sessionNotes = ''lunch''\<rparr>],
            isActive = False, currentSessionStart = None\<rparr>)"
proof -
  have run: "performAll [7 \<mapsto> report_task]
               [Start 100 alice 7, Stop 1800100 alice (Some ''lunch'') 7] 7 =
             Some (tracked_task\<lparr>timeTracking :=
               \<lparr>totalTimeSpent = 1800000,
                sessions = [\<lparr>startTime = Some 100, endTime = Some 1800100, duration = 1800000,
                             sessionNotes = ''lunch''\<rparr>],
                isActive = False, currentSessionStart = None\<rparr>\<rparr>)"
    by (simp add: performAll_def model_defs example_defs)
  from totalTimeSpent_sums_sessions
    [where \<sigma>="[7 \<mapsto> report_task]" and i=7 and t=report_task
       and rs="[Start 100 alice 7, Stop 1800100 alice (Some ''lunch'') 7]"]
  have inv: "\<exists>t'. performAll [7 \<mapsto> report_task]
            [Start 100 alice 7, Stop 1800100 alice (Some ''lunch'') 7] 7 = Some t' \<and> totalIsSum t'"
    by (simp add: example_tasks_valid)
  from totalTimeSpent_sums_sessions
    [where \<sigma>="[7 \<mapsto> tracked_task]" and i=7 and t=tracked_task and u=alice and s=100
       and now=1800100 and n="Some ''lunch''"]
  have step: "\<exists>t'. stopTask 1800100 alice (Some ''lunch'') [7 \<mapsto> tracked_task] 7 =
           ((OK, Some t'), [7 \<mapsto> t']) \<and>
         timeTracking t' =
           \<lparr>totalTimeSpent = 1800000,
            sessions = [\<lparr>startTime = Some 100, endTime = Some 1800100, duration = 1800000,
                         sessionNotes = ''lunch''\<rparr>],
            isActive = False, currentSessionStart = None\<rparr>"
    by (simp add: example_tasks_valid trim_literals) (simp add: example_defs)
  from run inv step show ?thesis by simp
qed

subsection \<open>Completing a task\<close>

text \<open>
  Claim C3. For every stored task in a non-terminal status (a document of the schema whose
  tracker, when active, has its session start recorded), \<open>completeTask\<close> by the assignee
  answers \<open>OK\<close> and stores the task with status \<open>COMPLETED\<close>, \<open>completedDate\<close> set to the
  instant of the request, \<open>isActive\<close> false, and exactly one new \<open>statusHistory\<close> entry,
  which carries \<open>COMPLETED\<close>; an active session is closed first, with the note
  \<open>Task completed\<close>.
\<close>

theorem completeTask_completes:
  assumes "\<sigma> i = Some t" and "assignedTo t = uid u"
    and "status t \<noteq> COMPLETED" and "status t \<noteq> CANCELLED"
    and "validateSync t"
    and "isActive (timeTracking t) \<longrightarrow> currentSessionStart (timeTracking t) \<noteq> None"
  shows "\<exists>t'. completeTask now u \<sigma> i = ((OK, Some t'), \<sigma>(i \<mapsto> t')) \<and>
      status t' = COMPLETED \<and> completedDate t' = Some now \<and> \<not> isActive (timeTracking t') \<and>
      statusHistory t' = statusHistory t @
        [\<lparr>entry_status = COMPLETED, changedBy = uid u, changedAt = now,
          reason = ''Status updated''\<rparr>] \<and>
      sessions (timeTracking t') =
        (if isActive (timeTracking t)
         then sessions (timeTracking t) @
                [\<lparr>startTime = currentSessionStart (timeTracking t), endTime = Some now,
                  duration = now - toNumber (currentSessionStart (timeTracking t)),
                  sessionNotes = ''Task completed''\<rparr>]
         else sessions (timeTracking t))"
proof (cases "isActive (timeTracking t)")
  case False
  with assms show ?thesis by (simp add: model_defs)
next
  case True
  with assms(6) obtain s where "currentSessionStart (timeTracking t) = Some s" by auto
  with True assms(1-5) show ?thesis by (simp add: model_defs)
qed

theorem completeTask_completes_witness:
  "\<exists>t'. completeTask 1800100 alice [7 \<mapsto> tracked_task] 7 = ((OK, Some t'), [7 \<mapsto> t']) \<and>
      status t' = COMPLETED \<and> completedDate t' = Some 1800100 \<and>
      \<not> isActive (timeTracking t') \<and>
      statusHistory t' =
        [\<lparr>entry_status = IN_PROGRESS, changedBy = 2, changedAt = 100,
          reason = ''Status updated''\<rparr>,
         \<lparr>entry_status = COMPLETED, changedBy = 1, changedAt = 1800100,
          reason = ''Status updated''\<rparr>] \<and>
      sessions (timeTracking t') =
        [\<lparr>startTime = Some 100, endTime = Some 1800100, duration = 1800000,
          sessionNotes = ''Task completed''\<rparr>]"
  using completeTask_completes
    [where \<sigma>="[7 \<mapsto> tracked_task]" and i=7 and t=tracked_task and u=alice and now=1800100]
  by (simp add: example_tasks_valid) (simp add: example_defs toNumber_def)

subsection \<open>Starting a task whose tracker is idle\<close>

text \<open>
  Claim C10, as stated, fails: \<open>startTimeTracking\<close> itself leaves a status other than
  \<open>PENDING\<close> alone, but it ends in \<open>save()\<close>, whose overdue hook stores \<open>OVERDUE\<close> for a
  task past its due date. An \<open>IN_PROGRESS\<close> task due at instant 5000000 and started at
  instant 6000000 ends \<open>OVERDUE\<close>.
\<close>

theorem startTask_status_counterexample:
  "\<not> isActive (timeTracking (report_task\<lparr>status := IN_PROGRESS\<rparr>)) \<and>
   status (report_task\<lparr>status := IN_PROGRESS\<rparr>) \<noteq> PENDING \<and>
   (\<exists>t'. startTask 6000000 alice [7 \<mapsto> report_task\<lparr>status := IN_PROGRESS\<rparr>] 7 =
            ((OK, Some t'), [7 \<mapsto> t']) \<and>
          status t' \<noteq> status (report_task\<lparr>status := IN_PROGRESS\<rparr>))"
  by (simp add: model_defs example_defs)

text \<open>
  Claim C10, amended. \<open>startTask\<close> checks no status: for every stored task (a document of
  the schema) with \<open>isActive\<close> false, the call by the assignee answers \<open>OK\<close>, also when the
  status is \<open>COMPLETED\<close> or \<open>CANCELLED\<close>, and stores \<open>isActive = true\<close> and
  \<open>currentSessionStart = now\<close>. The status is promoted from \<open>PENDING\<close> to \<open>IN_PROGRESS\<close>
  and otherwise kept; then, when the due date has passed and that status is none of
  \<open>COMPLETED\<close>, \<open>CANCELLED\<close>, \<open>OVERDUE\<close>, the save stores \<open>OVERDUE\<close> in its place.
\<close>

theorem startTask_idle_succeeds:
  assumes "\<sigma> i = Some t" and "assignedTo t = uid u" and "\<not> isActive (timeTracking t)"
    and "validateSync t"
  shows "\<exists>t'. startTask now u \<sigma> i = ((OK, Some t'), \<sigma>(i \<mapsto> t')) \<and>
      isActive (timeTracking t') \<and> currentSessionStart (timeTracking t') = Some now \<and>
      status t' =
        (let promoted = (if status t = PENDING then IN_PROGRESS else status t)
         in if dueDate t < now \<and> promoted \<noteq> COMPLETED \<and> promoted \<noteq> CANCELLED \<and>
               promoted \<noteq> OVERDUE
            then OVERDUE else promoted)"
  using assms by (simp add: model_defs)

theorem startTask_idle_succeeds_witness:
  "(\<exists>t'. startTask 100 alice [7 \<mapsto> report_task\<lparr>status := COMPLETED\<rparr>] 7 =
            ((OK, Some t'), [7 \<mapsto> t']) \<and>
      isActive (timeTracking t') \<and> currentSessionStart (timeTracking t') = Some 100 \<and>
      status t' = COMPLETED) \<and>
   (\<exists>t'. startTask 100 alice [7 \<mapsto> report_task] 7 = ((OK, Some t'), [7 \<mapsto> t']) \<and>
      isActive (timeTracking t') \<and> currentSessionStart (timeTracking t') = Some 100 \<and>
      status t' = IN_PROGRESS)"
  using startTask_idle_succeeds
      [where \<sigma>="[7 \<mapsto> report_task\<lparr>status := COMPLETED\<rparr>]" and i=7
         and t="report_task\<lparr>status := COMPLETED\<rparr>" and u=alice and now=100]
    startTask_idle_succeeds
      [where \<sigma>="[7 \<mapsto> report_task]" and i=7 and t=report_task and u=alice and now=100]
  by (simp add: validateSync_def example_defs)

subsection \<open>Overdue tasks\<close>

lemma save_overdue:
  assumes "validateSync d" and "\<not> isNew d \<or> \<sigma> (docId d) = None"
    and "dueDate d < now" and "status d \<noteq> COMPLETED" and "status d \<noteq> CANCELLED"
  shows "\<exists>d'. save now d \<sigma> = (Inr d', \<sigma>(docId d \<mapsto> persisted d')) \<and> status d' = OVERDUE"
  using assms
  by (auto simp: save_def preSave_overdue_def preSave_statusHistory_def setStatus_def
      stopTimeTracking_body_def Let_def)

text \<open>
  Claim C2, as stated, fails on reads: \<open>getTaskById\<close> returns the stored task and never
  looks at the clock. A \<open>PENDING\<close> task due at instant 5000000 is reported \<open>PENDING\<close>
  whenever it is fetched, also at instant 6000000.
\<close>

theorem getTaskById_overdue_counterexample:
  "dueDate report_task < 6000000 \<and> status report_task \<noteq> COMPLETED \<and>
   status report_task \<noteq> CANCELLED \<and> status report_task \<noteq> OVERDUE \<and>
   (\<exists>t'. getTaskById directory alice [7 \<mapsto> report_task] 7 = (OK, Some t') \<and>
         status t' = PENDING \<and> status t' \<noteq> OVERDUE)"
  by (simp add: getTaskById_def example_defs)

text \<open>
  Claim C2, amended. For every stored task with \<open>dueDate < now\<close> and status none of
  \<open>COMPLETED\<close>, \<open>CANCELLED\<close>, \<open>OVERDUE\<close>:
  \<^item> a read by \<open>getTaskById\<close>, by a principal who is not an employee or by the assignee
    (whose user record exists), returns the stored task, status unchanged, and the virtual
    \<open>isOverdue\<close> of that task is true;
  \<^item> when the task passes the validators of the schema and its tracker is idle, a start by
    the assignee succeeds and stores the status \<open>OVERDUE\<close>;
  \<^item> when the task passes the validators of the schema and its tracker is active with its
    session start recorded, a stop by the assignee succeeds and stores the status
    \<open>OVERDUE\<close>.

  And, whatever the collection holds: creating a task (title and description within the
  bounds of the schema, an existing active assignee, an unused id) with a due date before
  the instant of the request stores it with status \<open>OVERDUE\<close>, and fetching it, by the
  assignee or by a principal who is not an employee, reports \<open>OVERDUE\<close>.
\<close>

theorem overdue_on_save_flag_on_read:
   "(\<sigma> i = Some t \<and> dueDate t < now \<and>
     status t \<noteq> COMPLETED \<and> status t \<noteq> CANCELLED \<and> status t \<noteq> OVERDUE \<longrightarrow>
       (role u \<noteq> EMPLOYEE \<or> (assignedTo t = uid u \<and> us (uid u) \<noteq> None) \<longrightarrow>
          getTaskById us u \<sigma> i = (OK, Some t) \<and> isOverdue now t) \<and>
       (assignedTo t = uid u \<and> validateSync t \<and> \<not> isActive (timeTracking t) \<longrightarrow>
          (\<exists>t'. startTask now u \<sigma> i = ((OK, Some t'), \<sigma>(i \<mapsto> t')) \<and>
                status t' = OVERDUE)) \<and>
       (assignedTo t = uid u \<and> validateSync t \<and> isActive (timeTracking t) \<and>
        currentSessionStart (timeTracking t) \<noteq> None \<longrightarrow>
          (\<exists>t'. stopTask now u n \<sigma> i = ((OK, Some t'), \<sigma>(i \<mapsto> t')) \<and>
                status t' = OVERDUE))) \<and>
    (du < now0 \<and> us0 a = Some assignee \<and> userActive assignee \<and> \<sigma>0 j = None \<and>
     trim ti \<noteq> [] \<and> length (trim ti) \<le> 200 \<and> trim de \<noteq> [] \<and> length (trim de) \<le> 2000 \<and>
     (role w \<noteq> EMPLOYEE \<or> uid w = a) \<longrightarrow>
       (\<exists>t'. createTask us0 now0 j v
                \<lparr>b_title = Some ti, b_description = Some de, b_assignedTo = Some a,
                 b_dueDate = Some du, b_startDate = sd\<rparr> \<sigma>0 =
                ((CREATED, Some t'), \<sigma>0(j \<mapsto> t')) \<and>
             status t' = OVERDUE \<and>
             getTaskById us0 w (\<sigma>0(j \<mapsto> t')) j = (OK, Some t')))"
proof (intro conjI impI)
  assume stored: "\<sigma> i = Some t \<and> dueDate t < now \<and>
     status t \<noteq> COMPLETED \<and> status t \<noteq> CANCELLED \<and> status t \<noteq> OVERDUE"
  {
    assume "role u \<noteq> EMPLOYEE \<or> (assignedTo t = uid u \<and> us (uid u) \<noteq> None)"
    with stored show "getTaskById us u \<sigma> i = (OK, Some t)"
      by (auto simp: getTaskById_def)
    from stored show "isOverdue now t" by (simp add: isOverdue_def)
  next
    assume "assignedTo t = uid u \<and> validateSync t \<and> \<not> isActive (timeTracking t)"
    with stored
    show "\<exists>t'. startTask now u \<sigma> i = ((OK, Some t'), \<sigma>(i \<mapsto> t')) \<and> status t' = OVERDUE"
      by (simp add: model_defs)
  next
    assume "assignedTo t = uid u \<and> validateSync t \<and> isActive (timeTracking t) \<and>
       currentSessionStart (timeTracking t) \<noteq> None"
    with stored
    show "\<exists>t'. stopTask now u n \<sigma> i = ((OK, Some t'), \<sigma>(i \<mapsto> t')) \<and> status t' = OVERDUE"
      by (auto simp: model_defs)
  }
next
  assume "du < now0 \<and> us0 a = Some assignee \<and> userActive assignee \<and> \<sigma>0 j = None \<and>
     trim ti \<noteq> [] \<and> length (trim ti) \<le> 200 \<and> trim de \<noteq> [] \<and> length (trim de) \<le> 2000 \<and>
     (role w \<noteq> EMPLOYEE \<or> uid w = a)"
  then show "\<exists>t'. createTask us0 now0 j v
                \<lparr>b_title = Some ti, b_description = Some de, b_assignedTo = Some a,
                 b_dueDate = Some du, b_startDate = sd\<rparr> \<sigma>0 =
                ((CREATED, Some t'), \<sigma>0(j \<mapsto> t')) \<and>
             status t' = OVERDUE \<and>
             getTaskById us0 w (\<sigma>0(j \<mapsto> t')) j = (OK, Some t')"
    by (auto simp: createTask_def newTask_def getTaskById_def save_def validateSync_def
        preSave_overdue_def preSave_statusHistory_def setStatus_def persisted_simps Let_def)
qed

theorem overdue_on_save_flag_on_read_witness:
  "getTaskById directory alice [7 \<mapsto> report_task] 7 = (OK, Some report_task) \<and>
   isOverdue 6000000 report_task \<and>
   (\<exists>t'. startTask 6000000 alice [7 \<mapsto> report_task] 7 = ((OK, Some t'), [7 \<mapsto> t']) \<and>
         status t' = OVERDUE) \<and>
   (\<exists>t'. stopTask 6000000 alice None [7 \<mapsto> tracked_task] 7 = ((OK, Some t'), [7 \<mapsto> t']) \<and>
         status t' = OVERDUE) \<and>
   (\<exists>t'. createTask directory 100 8 bob late_body Map.empty =
            ((CREATED, Some t'), [8 \<mapsto> t']) \<and>
         status t' = OVERDUE \<and>
         getTaskById directory alice [8 \<mapsto> t'] 8 = (OK, Some t'))"
proof -
  from overdue_on_save_flag_on_read
    [where \<sigma>="[7 \<mapsto> report_task]" and i=7 and t=report_task and now=6000000
       and u=alice and us=directory and ti="''Invoice''" and de="''Send the invoice''"
       and a=1 and du=50 and now0=100 and assignee=alice and j=8 and w=alice and v=bob
       and sd=None and us0=directory and \<sigma>0=Map.empty]
  have a: "getTaskById directory alice [7 \<mapsto> report_task] 7 = (OK, Some report_task) \<and>
   isOverdue 6000000 report_task \<and>
   (\<exists>t'. startTask 6000000 alice [7 \<mapsto> report_task] 7 = ((OK, Some t'), [7 \<mapsto> t']) \<and>
         status t' = OVERDUE) \<and>
   (\<exists>t'. createTask directory 100 8 bob late_body Map.empty =
            ((CREATED, Some t'), [8 \<mapsto> t']) \<and>
         status t' = OVERDUE \<and>
         getTaskById directory alice [8 \<mapsto> t'] 8 = (OK, Some t'))"
    by (simp add: example_tasks_valid trim_literals late_body_def) (simp add: example_defs)
  from overdue_on_save_flag_on_read
    [where \<sigma>="[7 \<mapsto> tracked_task]" and i=7 and t=tracked_task and now=6000000
       and u=alice and n=None]
  have b: "\<exists>t'. stopTask 6000000 alice None [7 \<mapsto> tracked_task] 7 =
                  ((OK, Some t'), [7 \<mapsto> t']) \<and> status t' = OVERDUE"
    by (simp add: example_tasks_valid) (simp add: example_defs)
  from a b show ?thesis by simp
qed

subsection \<open>Updating through \<open>findByIdAndUpdate\<close>\<close>

text \<open>
  Claim C1 at a failing input. The assignee \<open>alice\<close> updates the started task with the body
  \<open>{status: completed}\<close>. The handler answers \<open>OK\<close> and the stored status is \<open>COMPLETED\<close>,
  but \<open>statusHistory\<close> is the one before the request: the update query runs no
  \<open>pre('save')\<close> hook, and the hook is the only place that appends a history entry.
\<close>

theorem updateTask_status_no_history:
  "updateTask alice [SetStatus COMPLETED] [7 \<mapsto> tracked_task] 7 =
     ((OK, Some (tracked_task\<lparr>status := COMPLETED\<rparr>)),
      [7 \<mapsto> tracked_task\<lparr>status := COMPLETED\<rparr>]) \<and>
   status tracked_task \<noteq> COMPLETED \<and>
   statusHistory (tracked_task\<lparr>status := COMPLETED\<rparr>) = statusHistory tracked_task"
  by (simp add: updateTask_def findByIdAndUpdate_def unauthorizedFields_def allowedFields_def
      example_defs Let_def)

lemma unauthorizedFields_empty:
  "(unauthorizedFields body = []) = (\<forall>f \<in> set body. fieldName f \<in> {''status'', ''comments''})"
  by (auto simp: unauthorizedFields_def allowedFields_def filter_empty_conv)

text \<open>
  Claim C7. For every employee and every update of a task assigned to them: when some
  member of the body is named otherwise than \<open>status\<close> or \<open>comments\<close>, the handler answers
  \<open>FORBIDDEN\<close> and the tasks collection is the one before the request; when every member
  is named \<open>status\<close> or \<open>comments\<close>, the answer is not \<open>FORBIDDEN\<close>.
\<close>

theorem updateTask_employee_fields:
  assumes "\<sigma> i = Some t" and "role u = EMPLOYEE" and "assignedTo t = uid u"
  shows "((\<exists>f \<in> set body. fieldName f \<notin> {''status'', ''comments''}) \<longrightarrow>
            updateTask u body \<sigma> i = ((FORBIDDEN, None), \<sigma>)) \<and>
         ((\<forall>f \<in> set body. fieldName f \<in> {''status'', ''comments''}) \<longrightarrow>
            fst (fst (updateTask u body \<sigma> i)) \<noteq> FORBIDDEN)"
proof (intro conjI impI)
  assume "\<exists>f \<in> set body. fieldName f \<notin> {''status'', ''comments''}"
  then have "unauthorizedFields body \<noteq> []" by (simp add: unauthorizedFields_empty)
  with assms show "updateTask u body \<sigma> i = ((FORBIDDEN, None), \<sigma>)"
    by (simp add: updateTask_def)
next
  assume "\<forall>f \<in> set body. fieldName f \<in> {''status'', ''comments''}"
  then have "unauthorizedFields body = []" by (simp add: unauthorizedFields_empty)
  with assms show "fst (fst (updateTask u body \<sigma> i)) \<noteq> FORBIDDEN"
    by (simp add: updateTask_def findByIdAndUpdate_def split: prod.splits sum.splits error.splits)
qed

theorem updateTask_employee_fields_witness:
  "updateTask alice [SetStatus IN_PROGRESS, SetDueDate 9000000] [7 \<mapsto> report_task] 7 =
     ((FORBIDDEN, None), [7 \<mapsto> report_task]) \<and>
   fst (fst (updateTask alice [SetStatus IN_PROGRESS, SetOther ''comments'']
               [7 \<mapsto> report_task] 7)) \<noteq> FORBIDDEN"
  using updateTask_employee_fields
      [where \<sigma>="[7 \<mapsto> report_task]" and i=7 and t=report_task and u=alice
         and body="[SetStatus IN_PROGRESS, SetDueDate 9000000]"]
    updateTask_employee_fields
      [where \<sigma>="[7 \<mapsto> report_task]" and i=7 and t=report_task and u=alice
         and body="[SetStatus IN_PROGRESS, SetOther ''comments'']"]
  by (simp add: example_defs)

subsection \<open>Employees with the project-manager designation\<close>

text \<open>
  Claim C6 at a failing input. \<open>bob\<close> is an employee with the project-manager designation;
  he created \<open>report_task\<close> and is not its assignee. Both \<open>getTaskById\<close> and \<open>updateTask\<close>
  answer \<open>FORBIDDEN\<close>: their guard asks for the role and the assignee only, while the
  listing of the same principal selects the tasks he created.
\<close>

theorem designated_assigner_forbidden:
  "role bob = EMPLOYEE \<and> designation bob = ''project_manager'' \<and>
   assignedBy report_task = uid bob \<and> assignedTo report_task \<noteq> uid bob \<and>
   getTaskById directory bob [7 \<mapsto> report_task] 7 = (FORBIDDEN, None) \<and>
   updateTask bob [SetDueDate 9000000] [7 \<mapsto> report_task] 7 =
     ((FORBIDDEN, None), [7 \<mapsto> report_task]) \<and>
   getAllTasks_selects rx pr (invoice_query\<lparr>q_search := None\<rparr>) bob [7 \<mapsto> report_task] 7"
  by (simp add: getTaskById_def updateTask_def getAllTasks_selects_def getAllTasks_filter_def
      matchesFilter_def truthy_def example_defs)

text \<open>
  Claim C8, as stated, fails: \<open>deleteTask\<close> asks whether the principal may delete tasks at
  all and never looks at the assigner. \<open>bob\<close> deletes \<open>audit_task\<close>, which \<open>carol\<close> created.
\<close>

theorem deleteTask_designated_counterexample:
  "role bob = EMPLOYEE \<and> designation bob = ''project_manager'' \<and>
   assignedBy audit_task \<noteq> uid bob \<and>
   deleteTask bob [7 \<mapsto> audit_task] 7 = ((OK, None), Map.empty)"
  by (simp add: deleteTask_def canDeleteTasks_def example_defs)

text \<open>
  Claim C8, amended. For every existing task, \<open>deleteTask\<close> removes it and answers \<open>OK\<close>
  when the principal is an administrator, a project manager, or an employee with the
  project-manager designation, whoever created the task; for an employee without the
  designation it answers \<open>FORBIDDEN\<close> and removes nothing.
\<close>

theorem deleteTask_by_role:
  assumes "\<sigma> i = Some t"
  shows "(role u = ADMIN \<or> role u = PROJECT_MANAGER \<longrightarrow>
            deleteTask u \<sigma> i = ((OK, None), \<sigma>(i := None))) \<and>
         (role u = EMPLOYEE \<and> designation u = ''project_manager'' \<longrightarrow>
            deleteTask u \<sigma> i = ((OK, None), \<sigma>(i := None))) \<and>
         (role u = EMPLOYEE \<and> designation u \<noteq> ''project_manager'' \<longrightarrow>
            deleteTask u \<sigma> i = ((FORBIDDEN, None), \<sigma>))"
  using assms by (auto simp: deleteTask_def canDeleteTasks_def)

theorem deleteTask_by_role_witness:
  "deleteTask carol [7 \<mapsto> audit_task] 7 = ((OK, None), Map.empty) \<and>
   deleteTask bob [7 \<mapsto> report_task] 7 = ((OK, None), Map.empty) \<and>
   deleteTask alice [7 \<mapsto> report_task] 7 = ((FORBIDDEN, None), [7 \<mapsto> report_task])"
  using deleteTask_by_role [where \<sigma>="[7 \<mapsto> audit_task]" and i=7 and t=audit_task and u=carol]
    deleteTask_by_role [where \<sigma>="[7 \<mapsto> report_task]" and i=7 and t=report_task and u=bob]
    deleteTask_by_role [where \<sigma>="[7 \<mapsto> report_task]" and i=7 and t=report_task and u=alice]
  by (simp add: example_defs)

subsection \<open>Listing and the search criterion\<close>

text \<open>What the role-scoped filter guarantees of every selected task.\<close>

lemma getAllTasks_plain_employee:
  assumes "role u = EMPLOYEE" and "designation u \<noteq> ''project_manager''"
    and "getAllTasks_selects rx pr q u \<sigma> i"
  shows "\<exists>t. \<sigma> i = Some t \<and> assignedTo t = uid u \<and>
           (case q_search q of
              None \<Rightarrow> True
            | Some search \<Rightarrow> search = [] \<or> rx search (title t) \<or> rx search (description t))"
  using assms
  by (auto simp: getAllTasks_selects_def getAllTasks_filter_def matchesFilter_def Let_def
      split: option.splits if_splits)

lemma getAllTasks_designated_employee:
  assumes "role u = EMPLOYEE" and "designation u = ''project_manager''"
    and "getAllTasks_selects rx pr q u \<sigma> i"
  shows "\<exists>t. \<sigma> i = Some t \<and> (assignedTo t = uid u \<or> assignedBy t = uid u)"
  using assms
  by (auto simp: getAllTasks_selects_def getAllTasks_filter_def matchesFilter_def Let_def
      split: option.splits if_splits)

text \<open>
  Claim C9 at a failing input. \<open>bob\<close> lists with the search string \<open>invoice\<close>. The handler
  first stores the two search alternatives under \<^verbatim>\<open>$or\<close> and then, for an employee with the
  designation, assigns \<^verbatim>\<open>$or\<close> again: the filter that reaches the database holds the two
  role alternatives only. It selects \<open>report_task\<close>, whose title and description do not
  contain the search string, whatever the regular expression test answers.
\<close>

theorem getAllTasks_search_overwritten:
  "getAllTasks_filter invoice_query bob =
     \<lparr>f_status = None, f_priority = None, f_assignedTo = None, f_assignedBy = None,
      f_createdAt_gte = None, f_createdAt_lte = None,
      f_or = Some [AssignedToIs 2, AssignedByIs 2]\<rparr> \<and>
   getAllTasks_selects rx pr invoice_query bob [7 \<mapsto> report_task] 7 \<and>
   \<not> search_spec ''invoice'' report_task"
  by (simp add: getAllTasks_filter_def getAllTasks_selects_def matchesFilter_def truthy_def
      search_spec_def toLowerCase_def example_defs)

end
